theory Spec2Isabelle
  imports Main "HOL-Library.Word"
begin

section \<open>The icon generator \<open>demo-app/assets/create_icons.py\<close>\<close>

text \<open>
  The script is a straight line of six statements:
  \<^verbatim>\<open>
  from PIL import Image
  img = Image.new('RGB', (1024, 1024), color=(28, 28, 30))
  img.save('icon.png')
  splash = Image.new('RGB', (1284, 2778), color=(28, 28, 30))
  splash.save('splash-icon.png')
  print("Icons created!")
  \<close>
  Each statement may raise, and a raised exception ends the script. The model threads a
  world (the files of the working directory, the text on standard output, and the order
  of the effects) through the statements and returns either an error or unit, together
  with the world that the script leaves behind.
\<close>

subsection \<open>Canvases\<close>

type_synonym byte = "8 word"

text \<open>A pixel of an \<open>RGB\<close> image: one byte per channel.\<close>

type_synonym colour = "byte \<times> byte \<times> byte"

text \<open>The script only ever asks for mode \<open>'RGB'\<close>.\<close>

datatype mode = RGB

record image =
  im_mode :: mode
  im_size :: "nat \<times> nat"
  im_data :: "colour list"

text \<open>The channels of a pixel read as numbers.\<close>

definition channels :: "colour \<Rightarrow> nat \<times> nat \<times> nat" where
  "channels px = (case px of (r, g, b) \<Rightarrow> (unat r, unat g, unat b))"

text \<open>
  Modelled from the spec: the image library is not part of the repository. The spec gives
  the capability the script consumes as a blank canvas of a given width, height and
  colour, where every pixel is set to that colour. The raster is kept row by row, one
  entry per pixel.
\<close>

definition canvas :: "mode \<Rightarrow> nat \<times> nat \<Rightarrow> colour \<Rightarrow> image" where
  "canvas m sz c =
     \<lparr>im_mode = m, im_size = sz, im_data = replicate (fst sz * snd sz) c\<rparr>"

subsection \<open>The world and the outside collaborators\<close>

datatype error = ImportError | MemoryError | OSError

text \<open>
  What a run does to the outside, in the order it does it: a completed file write (with
  the canvas that was written), a file write that failed, a text written to standard
  output.
\<close>

datatype event = Saved string image | SaveFailed string | Printed string

type_synonym filesystem = "string \<rightharpoonup> byte list"

record world =
  files :: filesystem
  stdout :: string
  trace :: "event list"

text \<open>
  Everything the script cannot decide itself is a parameter: whether the library can be
  imported, whether a canvas of a given size can be allocated, the bytes the encoder
  produces for a canvas under a file name (the format is inferred from the name), whether
  the operating system lets a write go through, and what a failed write leaves at its
  path (\<open>None\<close>: no file).
\<close>

record env =
  pil_installed :: bool
  can_allocate :: "nat \<times> nat \<Rightarrow> bool"
  encode :: "string \<Rightarrow> image \<Rightarrow> byte list"
  can_write :: "filesystem \<Rightarrow> string \<Rightarrow> byte list \<Rightarrow> bool"
  leftover :: "filesystem \<Rightarrow> string \<Rightarrow> byte list \<Rightarrow> byte list option"

subsection \<open>Statements\<close>

type_synonym 'a prog = "world \<Rightarrow> (error + 'a) \<times> world"

text \<open>One statement after another: an exception skips everything that follows.\<close>

definition seq :: "'a prog \<Rightarrow> ('a \<Rightarrow> 'b prog) \<Rightarrow> 'b prog" where
  "seq m f w = (case m w of (Inl e, w') \<Rightarrow> (Inl e, w') | (Inr x, w') \<Rightarrow> f x w')"

text \<open>\<^verbatim>\<open>from PIL import Image\<close>\<close>

definition import_PIL :: "env \<Rightarrow> unit prog" where
  "import_PIL env w = (if pil_installed env then (Inr (), w) else (Inl ImportError, w))"

text \<open>
  Modelled from the spec: \<^verbatim>\<open>Image.new(mode, size, color=c)\<close> belongs to the image
  library. It returns the blank canvas; the only failure the spec names for it is that
  the allocation fails, and it does no input or output.
\<close>

definition Image_new :: "env \<Rightarrow> mode \<Rightarrow> nat \<times> nat \<Rightarrow> colour \<Rightarrow> image prog" where
  "Image_new env m sz c w =
     (if can_allocate env sz then (Inr (canvas m sz c), w) else (Inl MemoryError, w))"

text \<open>
  Modelled from the spec: \<^verbatim>\<open>im.save(path)\<close> belongs to the image library. It encodes
  the canvas and writes it to the named file, which is created or overwritten; a write
  that fails raises and touches nothing but its own path.
\<close>

definition save :: "env \<Rightarrow> image \<Rightarrow> string \<Rightarrow> unit prog" where
  "save env im path w =
     (let bytes = encode env path im in
      if can_write env (files w) path bytes
      then (Inr (), w\<lparr>files := (files w)(path \<mapsto> bytes),
                       trace := trace w @ [Saved path im]\<rparr>)
      else (Inl OSError, w\<lparr>files := (files w)(path := leftover env (files w) path bytes),
                            trace := trace w @ [SaveFailed path]\<rparr>))"

text \<open>
  \<^verbatim>\<open>print(s)\<close>: the text and a newline go to standard output. The spec names no
  failure for it, and the model has none.
\<close>

definition print_line :: "string \<Rightarrow> unit prog" where
  "print_line s w =
     (Inr (), w\<lparr>stdout := stdout w @ s @ [CHR 0x0A],
                 trace := trace w @ [Printed (s @ [CHR 0x0A])]\<rparr>)"

subsection \<open>The script\<close>

definition create_icons :: "env \<Rightarrow> unit prog" where
  "create_icons env =
     seq (import_PIL env) (\<lambda>_.
     seq (Image_new env RGB (1024, 1024) (28, 28, 30)) (\<lambda>img.
     seq (save env img ''icon.png'') (\<lambda>_.
     seq (Image_new env RGB (1284, 2778) (28, 28, 30)) (\<lambda>splash.
     seq (save env splash ''splash-icon.png'') (\<lambda>_.
     print_line ''Icons created!'')))))"

text \<open>
  A run is one process: it starts with the files that are in the working directory,
  nothing on standard output and no effect yet.
\<close>

definition start :: "filesystem \<Rightarrow> world" where
  "start fs = \<lparr>files = fs, stdout = [], trace = []\<rparr>"

definition run :: "env \<Rightarrow> filesystem \<Rightarrow> (error + unit) \<times> world" where
  "run env fs = create_icons env (start fs)"

text \<open>The two canvases the script builds, and the line it prints.\<close>

definition img :: image where
  "img = canvas RGB (1024, 1024) (28, 28, 30)"

definition splash :: image where
  "splash = canvas RGB (1284, 2778) (28, 28, 30)"

definition confirmation :: string where
  "confirmation = ''Icons created!'' @ [CHR 0x0A]"

subsection \<open>Concrete environments\<close>

text \<open>A toy encoder: the raster as raw bytes, three per pixel.\<close>

definition raw_encode :: "string \<Rightarrow> image \<Rightarrow> byte list" where
  "raw_encode path im = concat (map (\<lambda>(r, g, b). [r, g, b]) (im_data im))"

text \<open>Everything works.\<close>

definition ok_env :: env where
  "ok_env = \<lparr>pil_installed = True, can_allocate = (\<lambda>_. True), encode = raw_encode,
             can_write = (\<lambda>_ _ _. True), leftover = (\<lambda>fs p _. fs p)\<rparr>"

text \<open>The working directory is not writable: every write fails and leaves no trace.\<close>

definition unwritable_env :: env where
  "unwritable_env = ok_env\<lparr>can_write := (\<lambda>_ _ _. False)\<rparr>"

text \<open>
  Files that exist are read-only: a write goes through only where no file exists yet, and
  a refused write leaves the file as it was.
\<close>

definition read_only_env :: env where
  "read_only_env = ok_env\<lparr>can_write := (\<lambda>fs p _. fs p = None)\<rparr>"

text \<open>A working directory that already holds an \<open>icon.png\<close> of three bytes.\<close>

definition old_files :: filesystem where
  "old_files = [''icon.png'' \<mapsto> [1, 2, 3]]"

section \<open>The six ways a run can go\<close>

text \<open>
  The script has no branch of its own, so a run is decided by the first statement that
  raises. These lemmas compute the outcome and the final world in each case.
\<close>

definition icon_bytes :: "env \<Rightarrow> byte list" where
  "icon_bytes env = encode env ''icon.png'' img"

definition splash_bytes :: "env \<Rightarrow> byte list" where
  "splash_bytes env = encode env ''splash-icon.png'' splash"

lemma run_no_import:
  "\<not> pil_installed env \<Longrightarrow> run env fs = (Inl ImportError, start fs)"
  by (simp add: run_def create_icons_def seq_def import_PIL_def)

lemma run_no_icon_canvas:
  "pil_installed env \<Longrightarrow> \<not> can_allocate env (1024, 1024) \<Longrightarrow>
   run env fs = (Inl MemoryError, start fs)"
  by (simp add: run_def create_icons_def seq_def import_PIL_def Image_new_def)

lemma run_icon_write_fails:
  "pil_installed env \<Longrightarrow> can_allocate env (1024, 1024) \<Longrightarrow>
   \<not> can_write env fs ''icon.png'' (icon_bytes env) \<Longrightarrow>
   run env fs =
     (Inl OSError,
      \<lparr>files = fs(''icon.png'' := leftover env fs ''icon.png'' (icon_bytes env)),
       stdout = [], trace = [SaveFailed ''icon.png'']\<rparr>)"
  by (simp add: run_def create_icons_def seq_def import_PIL_def Image_new_def save_def
      start_def icon_bytes_def img_def)

lemma run_no_splash_canvas:
  "pil_installed env \<Longrightarrow> can_allocate env (1024, 1024) \<Longrightarrow>
   can_write env fs ''icon.png'' (icon_bytes env) \<Longrightarrow>
   \<not> can_allocate env (1284, 2778) \<Longrightarrow>
   run env fs =
     (Inl MemoryError,
      \<lparr>files = fs(''icon.png'' \<mapsto> icon_bytes env),
       stdout = [], trace = [Saved ''icon.png'' img]\<rparr>)"
  by (simp add: run_def create_icons_def seq_def import_PIL_def Image_new_def save_def
      start_def icon_bytes_def img_def)

lemma run_splash_write_fails:
  "pil_installed env \<Longrightarrow> can_allocate env (1024, 1024) \<Longrightarrow>
   can_write env fs ''icon.png'' (icon_bytes env) \<Longrightarrow>
   can_allocate env (1284, 2778) \<Longrightarrow>
   \<not> can_write env (fs(''icon.png'' \<mapsto> icon_bytes env)) ''splash-icon.png'' (splash_bytes env) \<Longrightarrow>
   run env fs =
     (Inl OSError,
      \<lparr>files = fs(''icon.png'' \<mapsto> icon_bytes env,
                   ''splash-icon.png'' :=
                      leftover env (fs(''icon.png'' \<mapsto> icon_bytes env))
                        ''splash-icon.png'' (splash_bytes env)),
       stdout = [],
       trace = [Saved ''icon.png'' img, SaveFailed ''splash-icon.png'']\<rparr>)"
  by (simp add: run_def create_icons_def seq_def import_PIL_def Image_new_def save_def
      start_def icon_bytes_def splash_bytes_def img_def splash_def)

lemma run_succeeds:
  "pil_installed env \<Longrightarrow> can_allocate env (1024, 1024) \<Longrightarrow>
   can_write env fs ''icon.png'' (icon_bytes env) \<Longrightarrow>
   can_allocate env (1284, 2778) \<Longrightarrow>
   can_write env (fs(''icon.png'' \<mapsto> icon_bytes env)) ''splash-icon.png'' (splash_bytes env) \<Longrightarrow>
   run env fs =
     (Inr (),
      \<lparr>files = fs(''icon.png'' \<mapsto> icon_bytes env, ''splash-icon.png'' \<mapsto> splash_bytes env),
       stdout = confirmation,
       trace = [Saved ''icon.png'' img, Saved ''splash-icon.png'' splash,
                Printed confirmation]\<rparr>)"
  by (simp add: run_def create_icons_def seq_def import_PIL_def Image_new_def save_def
      print_line_def start_def icon_bytes_def splash_bytes_def img_def splash_def
      confirmation_def)

text \<open>Every run is one of the six.\<close>

lemma run_cases [case_names no_import no_icon_canvas icon_write_fails no_splash_canvas
    splash_write_fails succeeds]:
  obtains
    "run env fs = (Inl ImportError, start fs)"
  | "run env fs = (Inl MemoryError, start fs)"
  | "run env fs =
       (Inl OSError,
        \<lparr>files = fs(''icon.png'' := leftover env fs ''icon.png'' (icon_bytes env)),
         stdout = [], trace = [SaveFailed ''icon.png'']\<rparr>)"
  | "run env fs =
       (Inl MemoryError,
        \<lparr>files = fs(''icon.png'' \<mapsto> icon_bytes env),
         stdout = [], trace = [Saved ''icon.png'' img]\<rparr>)"
  | "run env fs =
       (Inl OSError,
        \<lparr>files = fs(''icon.png'' \<mapsto> icon_bytes env,
                     ''splash-icon.png'' :=
                        leftover env (fs(''icon.png'' \<mapsto> icon_bytes env))
                          ''splash-icon.png'' (splash_bytes env)),
         stdout = [],
         trace = [Saved ''icon.png'' img, SaveFailed ''splash-icon.png'']\<rparr>)"
  | "run env fs =
       (Inr (),
        \<lparr>files = fs(''icon.png'' \<mapsto> icon_bytes env,
                     ''splash-icon.png'' \<mapsto> splash_bytes env),
         stdout = confirmation,
         trace = [Saved ''icon.png'' img, Saved ''splash-icon.png'' splash,
                  Printed confirmation]\<rparr>)"
  using run_no_import [of env fs] run_no_icon_canvas [of env fs]
    run_icon_write_fails [of env fs] run_no_splash_canvas [of env fs]
    run_splash_write_fails [of env fs] run_succeeds [of env fs]
  by blast

text \<open>Facts about the two canvases and the environments used as examples.\<close>

lemma canvas_pixels: "px \<in> set (im_data (canvas m sz c)) \<Longrightarrow> px = c"
  by (simp add: canvas_def)

lemma canvas_length: "length (im_data (canvas m (w, h) c)) = w * h"
  by (simp add: canvas_def)

lemma canvas_size: "im_size (canvas m sz c) = sz"
  by (simp add: canvas_def)

lemma run_ok_env:
  "run ok_env fs =
     (Inr (),
      \<lparr>files = fs(''icon.png'' \<mapsto> icon_bytes ok_env,
                   ''splash-icon.png'' \<mapsto> splash_bytes ok_env),
       stdout = confirmation,
       trace = [Saved ''icon.png'' img, Saved ''splash-icon.png'' splash,
                Printed confirmation]\<rparr>)"
  by (rule run_succeeds) (simp_all add: ok_env_def)

lemma run_unwritable_env:
  "run unwritable_env fs =
     (Inl OSError, \<lparr>files = fs, stdout = [], trace = [SaveFailed ''icon.png'']\<rparr>)"
  using run_icon_write_fails [of unwritable_env fs]
  by (simp add: unwritable_env_def ok_env_def)

text \<open>The same six cases as one equation, decided by the collaborators in script order.\<close>

lemma run_eq:
  "run env fs =
     (if \<not> pil_installed env then (Inl ImportError, start fs)
      else if \<not> can_allocate env (1024, 1024) then (Inl MemoryError, start fs)
      else if \<not> can_write env fs ''icon.png'' (icon_bytes env) then
        (Inl OSError,
         \<lparr>files = fs(''icon.png'' := leftover env fs ''icon.png'' (icon_bytes env)),
          stdout = [], trace = [SaveFailed ''icon.png'']\<rparr>)
      else if \<not> can_allocate env (1284, 2778) then
        (Inl MemoryError,
         \<lparr>files = fs(''icon.png'' \<mapsto> icon_bytes env),
          stdout = [], trace = [Saved ''icon.png'' img]\<rparr>)
      else if \<not> can_write env (fs(''icon.png'' \<mapsto> icon_bytes env)) ''splash-icon.png''
                  (splash_bytes env) then
        (Inl OSError,
         \<lparr>files = fs(''icon.png'' \<mapsto> icon_bytes env,
                      ''splash-icon.png'' :=
                         leftover env (fs(''icon.png'' \<mapsto> icon_bytes env))
                           ''splash-icon.png'' (splash_bytes env)),
          stdout = [],
          trace = [Saved ''icon.png'' img, SaveFailed ''splash-icon.png'']\<rparr>)
      else
        (Inr (),
         \<lparr>files = fs(''icon.png'' \<mapsto> icon_bytes env,
                      ''splash-icon.png'' \<mapsto> splash_bytes env),
          stdout = confirmation,
          trace = [Saved ''icon.png'' img, Saved ''splash-icon.png'' splash,
                   Printed confirmation]\<rparr>))"
  by (simp add: run_no_import run_no_icon_canvas run_icon_write_fails run_no_splash_canvas
      run_splash_write_fails run_succeeds)

text \<open>Both canvases are filled with the one colour, and neither is empty.\<close>

lemma canvas_colour:
  "px \<in> set (im_data img) \<union> set (im_data splash) \<Longrightarrow>
   px = (28, 28, 30) \<and> channels px = (28, 28, 30)"
  by (auto simp: img_def splash_def channels_def dest: canvas_pixels)

lemma canvases_not_empty: "(28, 28, 30) \<in> set (im_data img) \<and> (28, 28, 30) \<in> set (im_data splash)"
  by (simp add: img_def splash_def canvas_def)

text \<open>The toy encoder writes three bytes per pixel.\<close>

lemma raw_encode_length: "length (raw_encode path (canvas m (w, h) c)) = 3 * (w * h)"
  by (cases c) (simp add: raw_encode_def canvas_def length_concat sum_list_replicate)

lemma run_read_only_env:
  "run read_only_env old_files =
     (Inl OSError, \<lparr>files = old_files, stdout = [], trace = [SaveFailed ''icon.png'']\<rparr>)"
  using run_icon_write_fails [of read_only_env old_files]
  by (simp add: read_only_env_def ok_env_def old_files_def)

text \<open>A completed write is one of the script's two, and its file holds the encoded canvas.\<close>

lemma saved_file:
  assumes "Saved p im \<in> set (trace (snd (run env fs)))"
  shows "files (snd (run env fs)) p = Some (encode env p im)
       \<and> (p = ''icon.png'' \<and> im = img \<or> p = ''splash-icon.png'' \<and> im = splash)"
  using assms
  by (cases env fs rule: run_cases)
    (auto simp: start_def icon_bytes_def splash_bytes_def)

section \<open>Properties of the generated images\<close>

text \<open>
  C1. In every run, each file write that completes leaves at its path the encoding of a
  canvas whose every pixel has the colour (28, 28, 30), one byte per channel. When no
  collaborator fails, \<open>icon.png\<close> and \<open>splash-icon.png\<close> hold the encodings of the
  two canvases of the script, and every pixel of both canvases has that one colour.
\<close>

theorem fill_colour_everywhere:
  "(Saved path im \<in> set (trace (snd (run env fs))) \<longrightarrow>
      files (snd (run env fs)) path = Some (encode env path im)
      \<and> (\<forall>px \<in> set (im_data im). px = (28, 28, 30) \<and> channels px = (28, 28, 30)))
   \<and> (pil_installed env \<and> can_allocate env (1024, 1024)
       \<and> can_write env fs ''icon.png'' (icon_bytes env)
       \<and> can_allocate env (1284, 2778)
       \<and> can_write env (fs(''icon.png'' \<mapsto> icon_bytes env)) ''splash-icon.png''
            (splash_bytes env) \<longrightarrow>
      files (snd (run env fs)) ''icon.png'' = Some (encode env ''icon.png'' img)
      \<and> files (snd (run env fs)) ''splash-icon.png'' =
          Some (encode env ''splash-icon.png'' splash)
      \<and> (\<forall>px \<in> set (im_data img) \<union> set (im_data splash).
            px = (28, 28, 30) \<and> channels px = (28, 28, 30)))"
proof (intro conjI impI)
  assume written: "Saved path im \<in> set (trace (snd (run env fs)))"
  then show "files (snd (run env fs)) path = Some (encode env path im)"
    by (simp add: saved_file)
  from saved_file [OF written] have "im = img \<or> im = splash"
    by blast
  then show "\<forall>px \<in> set (im_data im). px = (28, 28, 30) \<and> channels px = (28, 28, 30)"
    using canvas_colour by blast
next
  assume works: "pil_installed env \<and> can_allocate env (1024, 1024)
       \<and> can_write env fs ''icon.png'' (icon_bytes env)
       \<and> can_allocate env (1284, 2778)
       \<and> can_write env (fs(''icon.png'' \<mapsto> icon_bytes env)) ''splash-icon.png''
            (splash_bytes env)"
  then show "files (snd (run env fs)) ''icon.png'' = Some (encode env ''icon.png'' img)"
    by (simp add: run_eq icon_bytes_def)
  from works show "files (snd (run env fs)) ''splash-icon.png'' =
      Some (encode env ''splash-icon.png'' splash)"
    by (simp add: run_eq splash_bytes_def)
  show "\<forall>px \<in> set (im_data img) \<union> set (im_data splash).
      px = (28, 28, 30) \<and> channels px = (28, 28, 30)"
    using canvas_colour by blast
qed

theorem fill_colour_everywhere_witness:
  "Saved ''splash-icon.png'' splash \<in> set (trace (snd (run ok_env Map.empty)))
   \<and> files (snd (run ok_env Map.empty)) ''icon.png'' = Some (encode ok_env ''icon.png'' img)
   \<and> files (snd (run ok_env Map.empty)) ''splash-icon.png'' =
       Some (encode ok_env ''splash-icon.png'' splash)
   \<and> (28, 28, 30) \<in> set (im_data img)
   \<and> (28, 28, 30) \<in> set (im_data splash)
   \<and> channels (28, 28, 30) = (28, 28, 30)"
proof -
  have written: "Saved ''splash-icon.png'' splash \<in> set (trace (snd (run ok_env Map.empty)))"
    by (simp add: run_ok_env)
  have works: "pil_installed ok_env \<and> can_allocate ok_env (1024, 1024)
       \<and> can_write ok_env Map.empty ''icon.png'' (icon_bytes ok_env)
       \<and> can_allocate ok_env (1284, 2778)
       \<and> can_write ok_env [''icon.png'' \<mapsto> icon_bytes ok_env] ''splash-icon.png''
            (splash_bytes ok_env)"
    by (simp add: ok_env_def)
  have pixels: "(28, 28, 30) \<in> set (im_data img) \<and> (28, 28, 30) \<in> set (im_data splash)"
    by (rule canvases_not_empty)
  from fill_colour_everywhere [of "''splash-icon.png''" splash ok_env Map.empty]
    written works pixels
  show ?thesis
    by blast
qed

text \<open>
  C2. In every run, a completed write of \<open>icon.png\<close> leaves there the encoding of a
  canvas 1024 pixels wide and 1024 pixels high, with one raster entry for each of these
  pixels. The write completes, and the file holds that image, whenever the library is
  there, the canvas can be allocated and the write is let through.
\<close>

theorem icon_dimensions:
  "(Saved ''icon.png'' im \<in> set (trace (snd (run env fs))) \<longrightarrow>
      files (snd (run env fs)) ''icon.png'' = Some (encode env ''icon.png'' im)
      \<and> im_size im = (1024, 1024) \<and> length (im_data im) = 1024 * 1024)
   \<and> (pil_installed env \<and> can_allocate env (1024, 1024)
       \<and> can_write env fs ''icon.png'' (icon_bytes env) \<longrightarrow>
      files (snd (run env fs)) ''icon.png'' = Some (encode env ''icon.png'' img)
      \<and> im_size img = (1024, 1024) \<and> length (im_data img) = 1024 * 1024)"
proof -
  have size: "im_size img = (1024, 1024) \<and> length (im_data img) = 1024 * 1024"
    by (simp add: img_def canvas_size canvas_length)
  have "files (snd (run env fs)) ''icon.png'' = Some (encode env ''icon.png'' im) \<and> im = img"
    if "Saved ''icon.png'' im \<in> set (trace (snd (run env fs)))"
    using saved_file [OF that] by simp
  moreover have "files (snd (run env fs)) ''icon.png'' = Some (encode env ''icon.png'' img)"
    if "pil_installed env \<and> can_allocate env (1024, 1024)
       \<and> can_write env fs ''icon.png'' (icon_bytes env)"
    using that by (simp add: run_eq icon_bytes_def)
  ultimately show ?thesis
    using size by blast
qed

theorem icon_dimensions_witness:
  "Saved ''icon.png'' img \<in> set (trace (snd (run ok_env Map.empty)))
   \<and> files (snd (run ok_env Map.empty)) ''icon.png'' = Some (encode ok_env ''icon.png'' img)
   \<and> im_size img = (1024, 1024) \<and> length (im_data img) = 1024 * 1024"
proof -
  have written: "Saved ''icon.png'' img \<in> set (trace (snd (run ok_env Map.empty)))"
    by (simp add: run_ok_env)
  have works: "pil_installed ok_env \<and> can_allocate ok_env (1024, 1024)
       \<and> can_write ok_env Map.empty ''icon.png'' (icon_bytes ok_env)"
    by (simp add: ok_env_def)
  from icon_dimensions [of img ok_env Map.empty] written works
  show ?thesis
    by blast
qed

text \<open>
  C3. In every run, a completed write of \<open>splash-icon.png\<close> leaves there the encoding of
  a canvas 1284 pixels wide and 2778 pixels high, with one raster entry for each of these
  pixels. The write completes, and the file holds that image, whenever no collaborator
  fails before or during it.
\<close>

theorem splash_dimensions:
  "(Saved ''splash-icon.png'' im \<in> set (trace (snd (run env fs))) \<longrightarrow>
      files (snd (run env fs)) ''splash-icon.png'' = Some (encode env ''splash-icon.png'' im)
      \<and> im_size im = (1284, 2778) \<and> length (im_data im) = 1284 * 2778)
   \<and> (pil_installed env \<and> can_allocate env (1024, 1024)
       \<and> can_write env fs ''icon.png'' (icon_bytes env)
       \<and> can_allocate env (1284, 2778)
       \<and> can_write env (fs(''icon.png'' \<mapsto> icon_bytes env)) ''splash-icon.png''
            (splash_bytes env) \<longrightarrow>
      files (snd (run env fs)) ''splash-icon.png'' =
        Some (encode env ''splash-icon.png'' splash)
      \<and> im_size splash = (1284, 2778) \<and> length (im_data splash) = 1284 * 2778)"
proof -
  have size: "im_size splash = (1284, 2778) \<and> length (im_data splash) = 1284 * 2778"
    by (simp add: splash_def canvas_size canvas_length)
  have "files (snd (run env fs)) ''splash-icon.png'' =
      Some (encode env ''splash-icon.png'' im) \<and> im = splash"
    if "Saved ''splash-icon.png'' im \<in> set (trace (snd (run env fs)))"
    using saved_file [OF that] by simp
  moreover have "files (snd (run env fs)) ''splash-icon.png'' =
      Some (encode env ''splash-icon.png'' splash)"
    if "pil_installed env \<and> can_allocate env (1024, 1024)
       \<and> can_write env fs ''icon.png'' (icon_bytes env)
       \<and> can_allocate env (1284, 2778)
       \<and> can_write env (fs(''icon.png'' \<mapsto> icon_bytes env)) ''splash-icon.png''
            (splash_bytes env)"
    using that by (simp add: run_eq splash_bytes_def)
  ultimately show ?thesis
    using size by blast
qed

theorem splash_dimensions_witness:
  "Saved ''splash-icon.png'' splash \<in> set (trace (snd (run ok_env Map.empty)))
   \<and> files (snd (run ok_env Map.empty)) ''splash-icon.png'' =
       Some (encode ok_env ''splash-icon.png'' splash)
   \<and> im_size splash = (1284, 2778) \<and> length (im_data splash) = 1284 * 2778"
proof -
  have written: "Saved ''splash-icon.png'' splash \<in> set (trace (snd (run ok_env Map.empty)))"
    by (simp add: run_ok_env)
  have works: "pil_installed ok_env \<and> can_allocate ok_env (1024, 1024)
       \<and> can_write ok_env Map.empty ''icon.png'' (icon_bytes ok_env)
       \<and> can_allocate ok_env (1284, 2778)
       \<and> can_write ok_env [''icon.png'' \<mapsto> icon_bytes ok_env] ''splash-icon.png''
            (splash_bytes ok_env)"
    by (simp add: ok_env_def)
  from splash_dimensions [of splash ok_env Map.empty] written works
  show ?thesis
    by blast
qed

section \<open>Standard output and failure\<close>

text \<open>
  C4. On every successful run, standard output is exactly the one line
  \<open>Icons created!\<close> followed by a newline, and that line is the last effect of the run:
  both file writes have completed before it, and both files hold their encoded canvas.
\<close>

theorem confirmation_after_both_writes:
  assumes "fst (run env fs) = Inr ()"
  shows "stdout (snd (run env fs)) = ''Icons created!'' @ [CHR 0x0A]
       \<and> trace (snd (run env fs)) =
           [Saved ''icon.png'' img, Saved ''splash-icon.png'' splash,
            Printed (''Icons created!'' @ [CHR 0x0A])]
       \<and> files (snd (run env fs)) ''icon.png'' = Some (encode env ''icon.png'' img)
       \<and> files (snd (run env fs)) ''splash-icon.png'' =
           Some (encode env ''splash-icon.png'' splash)"
  using assms
  by (cases env fs rule: run_cases)
    (simp_all add: confirmation_def icon_bytes_def splash_bytes_def)

theorem confirmation_after_both_writes_witness:
  "fst (run ok_env Map.empty) = Inr ()
   \<and> stdout (snd (run ok_env Map.empty)) = ''Icons created!'' @ [CHR 0x0A]
   \<and> trace (snd (run ok_env Map.empty)) =
       [Saved ''icon.png'' img, Saved ''splash-icon.png'' splash,
        Printed (''Icons created!'' @ [CHR 0x0A])]"
proof -
  have ok: "fst (run ok_env Map.empty) = Inr ()"
    by (simp add: run_ok_env)
  show ?thesis
    using ok confirmation_after_both_writes [OF ok] by simp
qed

text \<open>
  C5. If any statement fails (the import, the allocation of either canvas, either file
  write, for instance because the directory is not writable), the run ends with an
  error and prints nothing: standard output stays empty and no print is among the
  effects of the run.
\<close>

theorem no_confirmation_on_failure:
  assumes "\<not> pil_installed env
         \<or> \<not> can_allocate env (1024, 1024)
         \<or> \<not> can_write env fs ''icon.png'' (icon_bytes env)
         \<or> \<not> can_allocate env (1284, 2778)
         \<or> \<not> can_write env (fs(''icon.png'' \<mapsto> icon_bytes env)) ''splash-icon.png''
              (splash_bytes env)"
  shows "(\<exists>e. fst (run env fs) = Inl e)
       \<and> stdout (snd (run env fs)) = []
       \<and> (\<forall>s. Printed s \<notin> set (trace (snd (run env fs))))"
  using assms by (auto simp: run_eq start_def)

theorem no_confirmation_on_failure_witness:
  "\<not> can_write unwritable_env Map.empty ''icon.png'' (icon_bytes unwritable_env)
   \<and> fst (run unwritable_env Map.empty) = Inl OSError
   \<and> stdout (snd (run unwritable_env Map.empty)) = []
   \<and> Printed confirmation \<notin> set (trace (snd (run unwritable_env Map.empty)))"
proof -
  have refused: "\<not> can_write unwritable_env Map.empty ''icon.png'' (icon_bytes unwritable_env)"
    by (simp add: unwritable_env_def ok_env_def)
  have error: "fst (run unwritable_env Map.empty) = Inl OSError"
    by (simp add: run_unwritable_env)
  from no_confirmation_on_failure [of unwritable_env Map.empty] refused error
  show ?thesis
    by blast
qed

section \<open>Determinism and overwriting\<close>

text \<open>
  C6. Take any two runs that use the same encoder, whatever the files they start from and
  whatever else differs in their environments (two runs one after the other in the same
  directory are a special case). If both complete the write of a file, they write the
  same bytes, and the file has the same content after both.
\<close>

theorem same_bytes_in_every_run:
  assumes "encode env1 = encode env2"
    and "Saved p im1 \<in> set (trace (snd (run env1 fs1)))"
    and "Saved p im2 \<in> set (trace (snd (run env2 fs2)))"
  shows "encode env1 p im1 = encode env2 p im2
       \<and> files (snd (run env1 fs1)) p = files (snd (run env2 fs2)) p"
proof -
  from saved_file [OF assms(2)] saved_file [OF assms(3)]
  have "im1 = im2"
    and "files (snd (run env1 fs1)) p = Some (encode env1 p im1)"
    and "files (snd (run env2 fs2)) p = Some (encode env2 p im2)"
    by auto
  with assms(1) show ?thesis by simp
qed

theorem same_bytes_in_every_run_witness:
  "encode ok_env = encode ok_env
   \<and> Saved ''icon.png'' img \<in> set (trace (snd (run ok_env Map.empty)))
   \<and> Saved ''icon.png'' img
       \<in> set (trace (snd (run ok_env (files (snd (run ok_env Map.empty))))))
   \<and> files (snd (run ok_env (files (snd (run ok_env Map.empty))))) ''icon.png''
       = files (snd (run ok_env Map.empty)) ''icon.png''"
proof -
  have first: "Saved ''icon.png'' img \<in> set (trace (snd (run ok_env Map.empty)))"
    by (simp add: run_ok_env)
  have second: "Saved ''icon.png'' img
      \<in> set (trace (snd (run ok_env (files (snd (run ok_env Map.empty))))))"
    by (simp add: run_ok_env)
  show ?thesis
    using first second same_bytes_in_every_run [OF refl second first] by simp
qed

text \<open>
  C7 as it is stated, for every run, does not hold: where the existing \<open>icon.png\<close> is
  read-only the write is refused, the run fails, and the file keeps its three old bytes
  instead of the newly encoded canvas.
\<close>

theorem overwrite_unconditional_counterexample:
  "old_files ''icon.png'' = Some [1, 2, 3]
   \<and> fst (run read_only_env old_files) = Inl OSError
   \<and> files (snd (run read_only_env old_files)) ''icon.png'' = Some [1, 2, 3]
   \<and> files (snd (run read_only_env old_files)) ''icon.png''
       \<noteq> Some (encode read_only_env ''icon.png'' img)"
proof -
  have "length (encode read_only_env ''icon.png'' img) = 3 * (1024 * 1024)"
    by (simp add: read_only_env_def ok_env_def img_def raw_encode_length)
  then have "encode read_only_env ''icon.png'' img \<noteq> [1, 2, 3]"
    by auto
  moreover have "old_files ''icon.png'' = Some [1, 2, 3]"
    by (simp add: old_files_def)
  ultimately show ?thesis
    by (simp add: run_read_only_env)
qed

text \<open>
  C7, amended. Whatever files the run starts from: if the library is there, the first
  canvas can be allocated and the write of \<open>icon.png\<close> is let through, then after
  the run \<open>icon.png\<close> holds exactly the newly encoded canvas, whatever it held before
  and whatever happens later in the run. If moreover the second canvas can be allocated
  and the write of \<open>splash-icon.png\<close> is let through, the run succeeds and both files
  hold their newly encoded canvases. The script has no existence check, no skip and no
  append: only a collaborator that fails keeps a file from being replaced.
\<close>

theorem overwrite_when_permitted:
  "(pil_installed env \<and> can_allocate env (1024, 1024)
    \<and> can_write env fs ''icon.png'' (icon_bytes env) \<longrightarrow>
      files (snd (run env fs)) ''icon.png'' = Some (encode env ''icon.png'' img))
   \<and> (pil_installed env \<and> can_allocate env (1024, 1024)
       \<and> can_write env fs ''icon.png'' (icon_bytes env)
       \<and> can_allocate env (1284, 2778)
       \<and> can_write env (fs(''icon.png'' \<mapsto> icon_bytes env)) ''splash-icon.png''
            (splash_bytes env) \<longrightarrow>
      fst (run env fs) = Inr ()
      \<and> files (snd (run env fs)) ''icon.png'' = Some (encode env ''icon.png'' img)
      \<and> files (snd (run env fs)) ''splash-icon.png'' =
          Some (encode env ''splash-icon.png'' splash))"
  by (simp add: run_eq icon_bytes_def splash_bytes_def)

theorem overwrite_when_permitted_witness:
  "fst (run ok_env [''icon.png'' \<mapsto> [1, 2, 3], ''splash-icon.png'' \<mapsto> []]) = Inr ()
   \<and> files (snd (run ok_env [''icon.png'' \<mapsto> [1, 2, 3], ''splash-icon.png'' \<mapsto> []]))
        ''icon.png'' = Some (encode ok_env ''icon.png'' img)
   \<and> files (snd (run ok_env [''icon.png'' \<mapsto> [1, 2, 3], ''splash-icon.png'' \<mapsto> []]))
        ''splash-icon.png'' = Some (encode ok_env ''splash-icon.png'' splash)"
proof -
  let ?old = "[''icon.png'' \<mapsto> [1, 2, 3], ''splash-icon.png'' \<mapsto> []] :: filesystem"
  have works: "pil_installed ok_env \<and> can_allocate ok_env (1024, 1024)
       \<and> can_write ok_env ?old ''icon.png'' (icon_bytes ok_env)
       \<and> can_allocate ok_env (1284, 2778)
       \<and> can_write ok_env (?old(''icon.png'' \<mapsto> icon_bytes ok_env)) ''splash-icon.png''
            (splash_bytes ok_env)"
    by (simp add: ok_env_def)
  from overwrite_when_permitted [of ok_env ?old] works
  show ?thesis
    by blast
qed


section \<open>Order of the effects and frame\<close>

text \<open>
  C8. In every run, a write to \<open>splash-icon.png\<close> (completed or failed) comes after the
  completed write of \<open>icon.png\<close>, nothing is written to \<open>icon.png\<close> after it, and
  \<open>icon.png\<close> holds its encoded canvas. Whenever the run gets as far as the second
  canvas, its first two effects are the completed write of \<open>icon.png\<close> and then the
  write of \<open>splash-icon.png\<close>, which is attempted on a directory where \<open>icon.png\<close>
  already holds its new bytes.
\<close>

theorem icon_written_before_splash:
  "(trace (snd (run env fs)) = pre @ e # post
    \<and> (e = Saved ''splash-icon.png'' im \<or> e = SaveFailed ''splash-icon.png'') \<longrightarrow>
      Saved ''icon.png'' img \<in> set pre
      \<and> (\<forall>ev \<in> set post. ev \<noteq> SaveFailed ''icon.png''
           \<and> (\<forall>im'. ev \<noteq> Saved ''icon.png'' im'))
      \<and> files (snd (run env fs)) ''icon.png'' = Some (encode env ''icon.png'' img))
   \<and> (pil_installed env \<and> can_allocate env (1024, 1024)
       \<and> can_write env fs ''icon.png'' (icon_bytes env)
       \<and> can_allocate env (1284, 2778) \<longrightarrow>
      take 2 (trace (snd (run env fs))) =
        [Saved ''icon.png'' img,
         if can_write env (fs(''icon.png'' \<mapsto> encode env ''icon.png'' img))
              ''splash-icon.png'' (encode env ''splash-icon.png'' splash)
         then Saved ''splash-icon.png'' splash else SaveFailed ''splash-icon.png'']
      \<and> files (snd (run env fs)) ''icon.png'' = Some (encode env ''icon.png'' img))"
proof (intro conjI impI)
  assume split: "trace (snd (run env fs)) = pre @ e # post
    \<and> (e = Saved ''splash-icon.png'' im \<or> e = SaveFailed ''splash-icon.png'')"
  then have "Saved ''icon.png'' img \<in> set pre
      \<and> (\<forall>ev \<in> set post. ev \<noteq> SaveFailed ''icon.png''
           \<and> (\<forall>im'. ev \<noteq> Saved ''icon.png'' im'))
      \<and> files (snd (run env fs)) ''icon.png'' = Some (icon_bytes env)"
    by (cases env fs rule: run_cases) (auto simp: start_def Cons_eq_append_conv)
  then show "Saved ''icon.png'' img \<in> set pre"
    and "\<forall>ev \<in> set post. ev \<noteq> SaveFailed ''icon.png''
           \<and> (\<forall>im'. ev \<noteq> Saved ''icon.png'' im')"
    and "files (snd (run env fs)) ''icon.png'' = Some (encode env ''icon.png'' img)"
    by (simp_all add: icon_bytes_def)
next
  assume reached: "pil_installed env \<and> can_allocate env (1024, 1024)
       \<and> can_write env fs ''icon.png'' (icon_bytes env)
       \<and> can_allocate env (1284, 2778)"
  then show "take 2 (trace (snd (run env fs))) =
        [Saved ''icon.png'' img,
         if can_write env (fs(''icon.png'' \<mapsto> encode env ''icon.png'' img))
              ''splash-icon.png'' (encode env ''splash-icon.png'' splash)
         then Saved ''splash-icon.png'' splash else SaveFailed ''splash-icon.png'']"
    by (simp add: run_eq icon_bytes_def splash_bytes_def)
  from reached show "files (snd (run env fs)) ''icon.png'' = Some (encode env ''icon.png'' img)"
    by (simp add: run_eq icon_bytes_def)
qed

theorem icon_written_before_splash_witness:
  "trace (snd (run ok_env Map.empty)) =
     [Saved ''icon.png'' img] @ Saved ''splash-icon.png'' splash # [Printed confirmation]
   \<and> Saved ''icon.png'' img \<in> set [Saved ''icon.png'' img]
   \<and> files (snd (run ok_env Map.empty)) ''icon.png'' = Some (encode ok_env ''icon.png'' img)
   \<and> take 2 (trace (snd (run ok_env Map.empty))) =
       [Saved ''icon.png'' img, Saved ''splash-icon.png'' splash]"
proof -
  have order: "trace (snd (run ok_env Map.empty)) =
      [Saved ''icon.png'' img] @ Saved ''splash-icon.png'' splash # [Printed confirmation]"
    by (simp add: run_ok_env)
  have reached: "pil_installed ok_env \<and> can_allocate ok_env (1024, 1024)
       \<and> can_write ok_env Map.empty ''icon.png'' (icon_bytes ok_env)
       \<and> can_allocate ok_env (1284, 2778)"
    by (simp add: ok_env_def)
  have permitted: "can_write ok_env [''icon.png'' \<mapsto> encode ok_env ''icon.png'' img]
      ''splash-icon.png'' (encode ok_env ''splash-icon.png'' splash)"
    by (simp add: ok_env_def)
  from icon_written_before_splash [of ok_env Map.empty "[Saved ''icon.png'' img]"
      "Saved ''splash-icon.png'' splash" "[Printed confirmation]" splash]
    order reached permitted
  show ?thesis
    by simp
qed

text \<open>
  C9. In every run, every file other than \<open>icon.png\<close> and \<open>splash-icon.png\<close> is left as
  it was, standard output is empty or holds the one confirmation line, and the effects
  of the run are among the two writes and the one print, each at most once.
\<close>

theorem nothing_else_touched:
  "(\<forall>p. p \<noteq> ''icon.png'' \<and> p \<noteq> ''splash-icon.png'' \<longrightarrow>
        files (snd (run env fs)) p = fs p)
   \<and> (stdout (snd (run env fs)) = [] \<or> stdout (snd (run env fs)) = confirmation)
   \<and> set (trace (snd (run env fs))) \<subseteq>
       {Saved ''icon.png'' img, SaveFailed ''icon.png'',
        Saved ''splash-icon.png'' splash, SaveFailed ''splash-icon.png'',
        Printed confirmation}
   \<and> distinct (trace (snd (run env fs)))"
  by (cases env fs rule: run_cases) (simp_all add: start_def)

theorem nothing_else_touched_witness:
  "''app.json'' \<noteq> ''icon.png'' \<and> ''app.json'' \<noteq> ''splash-icon.png''
   \<and> files (snd (run ok_env [''app.json'' \<mapsto> [123, 125]])) ''app.json'' = Some [123, 125]
   \<and> stdout (snd (run ok_env [''app.json'' \<mapsto> [123, 125]])) = confirmation"
proof -
  have other: "''app.json'' \<noteq> ''icon.png'' \<and> ''app.json'' \<noteq> ''splash-icon.png''"
    by simp
  have printed: "stdout (snd (run ok_env [''app.json'' \<mapsto> [123, 125]])) = confirmation"
    by (simp add: run_ok_env)
  show ?thesis
    using other printed nothing_else_touched [of ok_env "[''app.json'' \<mapsto> [123, 125]]"]
    by simp
qed

text \<open>
  C10. If the write of \<open>icon.png\<close> fails, the run ends with that error:
  \<open>splash-icon.png\<close> is as it was before the run, nothing is printed, and the failed
  write is the only effect.
\<close>

theorem icon_write_failure_stops_run:
  assumes "SaveFailed ''icon.png'' \<in> set (trace (snd (run env fs)))"
  shows "fst (run env fs) = Inl OSError
       \<and> files (snd (run env fs)) ''splash-icon.png'' = fs ''splash-icon.png''
       \<and> stdout (snd (run env fs)) = []
       \<and> trace (snd (run env fs)) = [SaveFailed ''icon.png'']"
  using assms
  by (cases env fs rule: run_cases) (simp_all add: start_def)

theorem icon_write_failure_stops_run_witness:
  "SaveFailed ''icon.png''
     \<in> set (trace (snd (run unwritable_env [''splash-icon.png'' \<mapsto> [7]])))
   \<and> fst (run unwritable_env [''splash-icon.png'' \<mapsto> [7]]) = Inl OSError
   \<and> files (snd (run unwritable_env [''splash-icon.png'' \<mapsto> [7]])) ''splash-icon.png''
       = Some [7]
   \<and> stdout (snd (run unwritable_env [''splash-icon.png'' \<mapsto> [7]])) = []"
proof -
  have failed: "SaveFailed ''icon.png''
      \<in> set (trace (snd (run unwritable_env [''splash-icon.png'' \<mapsto> [7]])))"
    by (simp add: run_unwritable_env)
  show ?thesis
    using failed icon_write_failure_stops_run [OF failed] by simp
qed

end
